theory Spec2Isabelle
  imports Main "HOL-Library.Sublist"
begin

section \<open>JavaScript values\<close>

text \<open>
  Frontmatter is an untyped JavaScript value at run time: the TypeScript type
  \<open>CopilotCommandFrontmatter\<close> is erased, and the constructor accepts whatever it is
  handed when validation is off. An object is an association list from property names to
  values, so that a key holding \<open>undefined\<close> and a missing key are different objects.
  Numbers are integers here; no number is ever computed by the code below.
\<close>

datatype jsval =
    JUndefined
  | JNull
  | JBool bool
  | JNum int
  | JStr string
  | JArr "jsval list"
  | JObj "(string \<times> jsval) list"

datatype error = Error string | TypeError

text \<open>JavaScript truthiness, as used by \<open>if (x)\<close>, \<open>!x\<close> and \<open>x && y\<close>.\<close>

fun truthy :: "jsval \<Rightarrow> bool" where
  "truthy JUndefined = False"
| "truthy JNull = False"
| "truthy (JBool b) = b"
| "truthy (JNum n) = (n \<noteq> 0)"
| "truthy (JStr s) = (s \<noteq> [])"
| "truthy (JArr xs) = True"
| "truthy (JObj kvs) = True"

text \<open>Reading a property of \<open>undefined\<close> or \<open>null\<close> throws a TypeError.\<close>

fun is_nullish :: "jsval \<Rightarrow> bool" where
  "is_nullish JUndefined = True"
| "is_nullish JNull = True"
| "is_nullish v = False"

text \<open>
  \<open>get_prop v k\<close> is the property read \<open>v.k\<close> on a value that is not nullish, for the data
  property names the code reads (mode, description, model, copilot, targets): an object
  gives the stored value, or \<open>undefined\<close> when it has no such key; a primitive or an array
  has no such property and gives \<open>undefined\<close>.
\<close>

fun get_prop :: "jsval \<Rightarrow> string \<Rightarrow> jsval" where
  "get_prop (JObj kvs) k = (case map_of kvs k of Some v \<Rightarrow> v | None \<Rightarrow> JUndefined)"
| "get_prop v k = JUndefined"

text \<open>Optional chaining \<open>v?.k\<close>.\<close>

definition opt_prop :: "jsval \<Rightarrow> string \<Rightarrow> jsval" where
  "opt_prop v k = (if is_nullish v then JUndefined else get_prop v k)"

text \<open>\<open>k in v\<close> for an object: the key is there, whatever it holds.\<close>

fun has_key :: "jsval \<Rightarrow> string \<Rightarrow> bool" where
  "has_key (JObj kvs) k = (k \<in> set (map fst kvs))"
| "has_key v k = False"

text \<open>\<open>Object.keys(v)\<close> for an object, in insertion order.\<close>

fun js_keys :: "jsval \<Rightarrow> string list" where
  "js_keys (JObj kvs) = map fst kvs"
| "js_keys v = []"

fun is_string :: "jsval \<Rightarrow> bool" where
  "is_string (JStr s) = True"
| "is_string v = False"

fun is_object :: "jsval \<Rightarrow> bool" where
  "is_object (JObj kvs) = True"
| "is_object v = False"

section \<open>String helpers\<close>

text \<open>
  \<open>s.replace(/pat$/, rep)\<close> for a literal pattern: the regular expression is tried at
  each start index from the left, and matches where the rest of the string is the pattern.
\<close>

fun replace_at_end :: "string \<Rightarrow> string \<Rightarrow> string \<Rightarrow> string" where
  "replace_at_end pat rep [] = (if pat = [] then rep else [])"
| "replace_at_end pat rep (c # cs) =
     (if c # cs = pat then rep else c # replace_at_end pat rep cs)"

text \<open>
  \<open>String.prototype.trim\<close> strips the white space and line terminators of ECMAScript
  from both ends: tab, line feed, vertical tab, form feed, carriage return, space,
  no-break space, U+1680, U+2000 to U+200A, the line and paragraph separators U+2028 and
  U+2029, U+202F, U+205F, U+3000 and the byte order mark U+FEFF. \<open>js_white_space\<close> is
  that set of code units. A character of a string here is a code unit below 256, so of
  these the first seven can occur in a string.
\<close>

definition js_white_space :: "nat \<Rightarrow> bool" where
  "js_white_space n \<longleftrightarrow>
     n \<in> set [0x09, 0x0A, 0x0B, 0x0C, 0x0D, 0x20, 0xA0, 0x1680, 0x2028, 0x2029, 0x202F,
              0x205F, 0x3000, 0xFEFF] \<or>
     (0x2000 \<le> n \<and> n \<le> 0x200A)"

definition is_ws :: "char \<Rightarrow> bool" where
  "is_ws c = js_white_space (of_char c)"

definition trim :: "string \<Rightarrow> string" where
  "trim s = rev (dropWhile is_ws (rev (dropWhile is_ws s)))"

section \<open>The copilot frontmatter schema\<close>

text \<open>
  \<open>z.object({mode: z.literal("agent"), description: z.string(), model:
  z.optional(z.string())})\<close>. The object schema refuses what is not a plain object, then
  checks each key of its shape on the value read at that key (a missing key reads
  \<open>undefined\<close>) and collects one issue per failing key. Keys outside the shape are not
  checked; they are left out of the parsed data.
\<close>

datatype zod_issue = ExpectedObject | InvalidField string

definition check_mode :: "jsval \<Rightarrow> bool" where
  "check_mode v = (v = JStr ''agent'')"

definition check_optional_string :: "jsval \<Rightarrow> bool" where
  "check_optional_string v = (v = JUndefined \<or> is_string v)"

definition field_issue :: "bool \<Rightarrow> string \<Rightarrow> zod_issue list" where
  "field_issue ok k = (if ok then [] else [InvalidField k])"

definition parsed_field :: "jsval \<Rightarrow> string \<Rightarrow> (string \<times> jsval) list" where
  "parsed_field v k =
     (if get_prop v k = JUndefined then (if has_key v k then [(k, JUndefined)] else [])
      else [(k, get_prop v k)])"

definition CopilotCommandFrontmatterSchema_safeParse :: "jsval \<Rightarrow> zod_issue list + jsval" where
  "CopilotCommandFrontmatterSchema_safeParse v =
     (if \<not> is_object v then Inl [ExpectedObject]
      else
        let issues =
              field_issue (check_mode (get_prop v ''mode'')) ''mode'' @
              field_issue (is_string (get_prop v ''description'')) ''description'' @
              field_issue (check_optional_string (get_prop v ''model'')) ''model''
        in if issues = []
           then Inr (JObj (parsed_field v ''mode'' @ parsed_field v ''description'' @
                           parsed_field v ''model''))
           else Inl issues)"

text \<open>
  The schema in the words of the specification: a mode that is the literal agent, a
  description that is a string, and a model that is a string when there is one.
\<close>

definition satisfies_copilot_schema :: "jsval \<Rightarrow> bool" where
  "satisfies_copilot_schema v \<longleftrightarrow>
     is_object v \<and> get_prop v ''mode'' = JStr ''agent'' \<and> is_string (get_prop v ''description'') \<and>
     (get_prop v ''model'' = JUndefined \<or> is_string (get_prop v ''model''))"

section \<open>External collaborators\<close>

text \<open>
  The path functions of node, the error formatter, the frontmatter serializer and parser
  and the file reader are used by the adapter and defined elsewhere; the adapter is
  modelled over any choice of them. \<open>rulesyncCommandsDir\<close> is
  \<open>RulesyncCommand.getSettablePaths().relativeDirPath\<close>.
\<close>

record externals =
  path_join :: "string list \<Rightarrow> string"
  path_basename :: "string \<Rightarrow> string"
  formatError :: "zod_issue list \<Rightarrow> string"
  stringifyFrontmatter :: "string \<Rightarrow> jsval \<Rightarrow> string"
  parseFrontmatter :: "string \<Rightarrow> error + (jsval \<times> string)"
  readFileContent :: "string \<Rightarrow> error + string"
  rulesyncCommandsDir :: string

section \<open>The canonical command\<close>

record RulesyncCommand =
  rs_baseDir :: "string option"
  rs_relativeDirPath :: string
  rs_relativeFilePath :: string
  rs_fileContent :: string
  rs_frontmatter :: jsval
  rs_body :: string

record RulesyncCommandParams =
  rp_baseDir :: "string option"
  rp_relativeDirPath :: string
  rp_relativeFilePath :: string
  rp_fileContent :: string
  rp_frontmatter :: jsval
  rp_body :: string
  rp_validate :: "bool option"

text \<open>
  Modelled from the spec: the canonical metadata schema of rulesync-command.ts, which is
  not among the sources. Section 6 gives it as targets, an array of strings (tool
  identifiers or the wildcard), a string description, and per tool an optional nested block
  of optional fields; for copilot the block holds the optional string model.
\<close>

definition all_strings :: "jsval \<Rightarrow> bool" where
  "all_strings v = (case v of JArr xs \<Rightarrow> list_all is_string xs | _ \<Rightarrow> False)"

definition check_copilot_block :: "jsval \<Rightarrow> bool" where
  "check_copilot_block v =
     (v = JUndefined \<or> (is_object v \<and> check_optional_string (get_prop v ''model'')))"

definition RulesyncCommandFrontmatterSchema_issues :: "jsval \<Rightarrow> zod_issue list" where
  "RulesyncCommandFrontmatterSchema_issues v =
     (if \<not> is_object v then [ExpectedObject]
      else
        field_issue (all_strings (get_prop v ''targets'')) ''targets'' @
        field_issue (is_string (get_prop v ''description'')) ''description'' @
        field_issue (check_copilot_block (get_prop v ''copilot'')) ''copilot'')"

text \<open>
  Modelled from the spec: the constructor of RulesyncCommand (rulesync-command.ts, not
  among the sources). Section 3: a command document holds its metadata, body, relative path
  and base directory, and construction with the validate flag set enforces the owning
  schema and fails otherwise, with a message that includes the file path (section 7).
\<close>

definition RulesyncCommand_new :: "externals \<Rightarrow> RulesyncCommandParams \<Rightarrow> error + RulesyncCommand" where
  "RulesyncCommand_new ext p =
     (let issues = RulesyncCommandFrontmatterSchema_issues (rp_frontmatter p)
      in if rp_validate p = Some True \<and> issues \<noteq> []
         then Inl (Error (''Invalid frontmatter in '' @
                path_join ext [rp_relativeDirPath p, rp_relativeFilePath p] @ '': '' @
                formatError ext issues))
         else Inr \<lparr> rs_baseDir = rp_baseDir p,
                    rs_relativeDirPath = rp_relativeDirPath p,
                    rs_relativeFilePath = rp_relativeFilePath p,
                    rs_fileContent = rp_fileContent p,
                    rs_frontmatter = rp_frontmatter p,
                    rs_body = rp_body p \<rparr>)"

section \<open>The copilot command\<close>

record CopilotCommand =
  baseDir :: "string option"
  relativeDirPath :: string
  relativeFilePath :: string
  fileContent :: string
  frontmatter :: jsval
  body :: string

record CopilotCommandParams =
  p_baseDir :: "string option"
  p_relativeDirPath :: string
  p_relativeFilePath :: string
  p_validate :: "bool option"
  p_frontmatter :: jsval
  p_body :: string

datatype ValidationResult = ValidationResult (success: bool) (error: "error option")

text \<open>
  Modelled from the spec: the base class constructor (tool-command.ts and ai-file.ts, not
  among the sources), which by section 3 keeps the relative path, the base directory and
  the file content of the document. \<open>CopilotCommand_store\<close> is the object the
  constructor builds after its check: the call of the base constructor with the
  serialized file content, and the assignments of frontmatter and body.
\<close>

definition CopilotCommand_store :: "externals \<Rightarrow> CopilotCommandParams \<Rightarrow> CopilotCommand" where
  "CopilotCommand_store ext p =
     \<lparr> baseDir = p_baseDir p,
       relativeDirPath = p_relativeDirPath p,
       relativeFilePath = p_relativeFilePath p,
       fileContent = stringifyFrontmatter ext (p_body p) (p_frontmatter p),
       frontmatter = p_frontmatter p,
       body = p_body p \<rparr>"

text \<open>
  The constructor. The validate flag is optional in the parameter type and is tested for
  truthiness, so leaving it out skips the check like \<open>false\<close> does.
\<close>

definition CopilotCommand_new :: "externals \<Rightarrow> CopilotCommandParams \<Rightarrow> error + CopilotCommand" where
  "CopilotCommand_new ext p =
     (if p_validate p = Some True
      then (case CopilotCommandFrontmatterSchema_safeParse (p_frontmatter p) of
              Inl issues \<Rightarrow>
                Inl (Error (''Invalid frontmatter in '' @
                  path_join ext [p_relativeDirPath p, p_relativeFilePath p] @ '': '' @
                  formatError ext issues))
            | Inr data \<Rightarrow> Inr (CopilotCommand_store ext p))
      else Inr (CopilotCommand_store ext p))"

definition getSettablePaths :: "externals \<Rightarrow> string" where
  "getSettablePaths ext = path_join ext [''.github'', ''prompts'']"

definition toRulesyncCommand :: "externals \<Rightarrow> CopilotCommand \<Rightarrow> error + RulesyncCommand" where
  "toRulesyncCommand ext c =
     (if is_nullish (frontmatter c) then Inl TypeError
      else
        let model = get_prop (frontmatter c) ''model'';
            rulesyncFrontmatter =
              JObj ([(''targets'', JArr [JStr ''*'']),
                     (''description'', get_prop (frontmatter c) ''description'')] @
                    (if truthy model then [(''copilot'', JObj [(''model'', model)])] else []));
            originalFilePath = relativeFilePath c;
            newFilePath = replace_at_end ''.prompt.md'' ''.md'' originalFilePath
        in RulesyncCommand_new ext
             \<lparr> rp_baseDir = Some ''.'',
               rp_relativeDirPath = rulesyncCommandsDir ext,
               rp_relativeFilePath = newFilePath,
               rp_fileContent = fileContent c,
               rp_frontmatter = rulesyncFrontmatter,
               rp_body = body c,
               rp_validate = Some True \<rparr>)"

definition validate :: "externals \<Rightarrow> CopilotCommand \<Rightarrow> ValidationResult" where
  "validate ext c =
     (if \<not> truthy (frontmatter c) then ValidationResult True None
      else (case CopilotCommandFrontmatterSchema_safeParse (frontmatter c) of
              Inr data \<Rightarrow> ValidationResult True None
            | Inl issues \<Rightarrow>
                ValidationResult False
                  (Some (Error (''Invalid frontmatter in '' @
                     path_join ext [relativeDirPath c, relativeFilePath c] @ '': '' @
                     formatError ext issues)))))"

text \<open>
  \<open>baseDir\<close> and \<open>validate\<close> have defaults (\<open>"."\<close> and \<open>true\<close>), taken when the caller
  leaves them out.
\<close>

definition fromRulesyncCommand ::
  "externals \<Rightarrow> string option \<Rightarrow> RulesyncCommand \<Rightarrow> bool option \<Rightarrow> error + CopilotCommand" where
  "fromRulesyncCommand ext baseDir_arg rulesyncCommand validate_arg =
     (let base = (case baseDir_arg of None \<Rightarrow> ''.'' | Some b \<Rightarrow> b);
          flag = (case validate_arg of None \<Rightarrow> True | Some v \<Rightarrow> v);
          paths = getSettablePaths ext;
          rulesyncFrontmatter = rs_frontmatter rulesyncCommand
      in if is_nullish rulesyncFrontmatter then Inl TypeError
         else
           let copilotFrontmatter =
                 JObj [(''mode'', JStr ''agent''),
                       (''description'', get_prop rulesyncFrontmatter ''description''),
                       (''model'', opt_prop (get_prop rulesyncFrontmatter ''copilot'') ''model'')];
               originalFilePath = rs_relativeFilePath rulesyncCommand;
               newFilePath = replace_at_end ''.md'' ''.prompt.md'' originalFilePath
           in CopilotCommand_new ext
                \<lparr> p_baseDir = Some base,
                  p_relativeDirPath = paths,
                  p_relativeFilePath = newFilePath,
                  p_validate = Some flag,
                  p_frontmatter = copilotFrontmatter,
                  p_body = rs_body rulesyncCommand \<rparr>)"

text \<open>The promise of \<open>fromFile\<close> rejects where the model returns \<open>Inl\<close>.\<close>

definition fromFile ::
  "externals \<Rightarrow> string option \<Rightarrow> string \<Rightarrow> bool option \<Rightarrow> error + CopilotCommand" where
  "fromFile ext baseDir_arg relPath validate_arg =
     (let base = (case baseDir_arg of None \<Rightarrow> ''.'' | Some b \<Rightarrow> b);
          flag = (case validate_arg of None \<Rightarrow> True | Some v \<Rightarrow> v);
          paths = getSettablePaths ext;
          filePath = path_join ext [base, paths, relPath]
      in case readFileContent ext filePath of
           Inl e \<Rightarrow> Inl e
         | Inr fileText \<Rightarrow>
             (case parseFrontmatter ext fileText of
                Inl e \<Rightarrow> Inl e
              | Inr (fm, rest) \<Rightarrow>
                  (case CopilotCommandFrontmatterSchema_safeParse fm of
                     Inl issues \<Rightarrow>
                       Inl (Error (''Invalid frontmatter in '' @ filePath @ '': '' @
                              formatError ext issues))
                   | Inr data \<Rightarrow>
                       CopilotCommand_new ext
                         \<lparr> p_baseDir = Some base,
                           p_relativeDirPath = paths,
                           p_relativeFilePath = path_basename ext relPath,
                           p_validate = Some flag,
                           p_frontmatter = data,
                           p_body = trim rest \<rparr>)))"

text \<open>
  Modelled from the spec: \<open>isTargetedByRulesyncCommandDefault\<close> of tool-command.ts, which
  is not among the sources. Section 4.1: true if the targets field of the canonical
  document is absent, contains the wildcard marker, or lists the tool's identifier; false
  otherwise.
\<close>

definition isTargetedByRulesyncCommandDefault :: "RulesyncCommand \<Rightarrow> string \<Rightarrow> bool" where
  "isTargetedByRulesyncCommandDefault rulesyncCommand toolTarget =
     (case get_prop (rs_frontmatter rulesyncCommand) ''targets'' of
        JUndefined \<Rightarrow> True
      | JArr ts \<Rightarrow> List.member ts (JStr ''*'') \<or> List.member ts (JStr toolTarget)
      | _ \<Rightarrow> False)"

definition isTargetedByRulesyncCommand :: "RulesyncCommand \<Rightarrow> bool" where
  "isTargetedByRulesyncCommand rulesyncCommand =
     isTargetedByRulesyncCommandDefault rulesyncCommand ''copilot''"

section \<open>The conversion pair\<close>

text \<open>
  Throwing ends the computation: \<open>and_then\<close> passes a result on, or keeps the error.
  \<open>roundtrip\<close> is the composite of the round-trip property: construct a copilot
  command, convert it with \<open>toRulesyncCommand\<close>, and convert the canonical command back
  with \<open>fromRulesyncCommand\<close>.
\<close>

definition and_then :: "error + 'a \<Rightarrow> ('a \<Rightarrow> error + 'b) \<Rightarrow> error + 'b" where
  "and_then r f = (case r of Inl e \<Rightarrow> Inl e | Inr x \<Rightarrow> f x)"

definition roundtrip ::
  "externals \<Rightarrow> CopilotCommandParams \<Rightarrow> string option \<Rightarrow> bool option \<Rightarrow> error + CopilotCommand" where
  "roundtrip ext p baseDir_arg validate_arg =
     and_then (CopilotCommand_new ext p) (\<lambda>c.
     and_then (toRulesyncCommand ext c) (\<lambda>r.
     fromRulesyncCommand ext baseDir_arg r validate_arg))"

section \<open>A concrete environment\<close>

text \<open>
  For running the adapter on examples: paths are joined with a slash (no normalisation),
  the serializer keeps the body only, and the file system holds one prompt file, whose
  frontmatter lacks the mode.
\<close>

fun join_slash :: "string list \<Rightarrow> string" where
  "join_slash [] = ''.''"
| "join_slash [x] = x"
| "join_slash (x # y # ys) = x @ ''/'' @ join_slash (y # ys)"

definition last_segment :: "string \<Rightarrow> string" where
  "last_segment s = rev (takeWhile (\<lambda>c. c \<noteq> CHR ''/'') (rev s))"

fun show_issue :: "zod_issue \<Rightarrow> string" where
  "show_issue ExpectedObject = ''expected object; ''"
| "show_issue (InvalidField k) = k @ '' is invalid; ''"

definition sample_externals :: externals where
  "sample_externals =
     \<lparr> path_join = join_slash,
       path_basename = last_segment,
       formatError = (\<lambda>issues. concat (map show_issue issues)),
       stringifyFrontmatter = (\<lambda>b fm. b),
       parseFrontmatter =
         (\<lambda>s. if s = ''description: Test''
              then Inr (JObj [(''description'', JStr ''Test'')], ''Body content'')
              else Inl (Error ''no frontmatter'')),
       readFileContent =
         (\<lambda>f. if f = ''./.github/prompts/invalid-command.prompt.md''
              then Inr ''description: Test''
              else Inl (Error ''no such file'')),
       rulesyncCommandsDir = ''.rulesync/commands'' \<rparr>"

section \<open>Auxiliary facts\<close>

lemma opt_prop_eq: "opt_prop v k = get_prop v k"
  by (cases v) (simp_all add: opt_prop_def)

lemma get_prop_has_key: "get_prop v k \<noteq> JUndefined \<Longrightarrow> has_key v k"
  by (cases v) (auto split: option.splits dest: map_of_SomeD intro: rev_image_eqI)

lemma satisfies_truthy: "satisfies_copilot_schema v \<Longrightarrow> truthy v \<and> \<not> is_nullish v"
  by (cases v) (simp_all add: satisfies_copilot_schema_def)

lemma safeParse_Inr_iff:
  "(\<exists>d. CopilotCommandFrontmatterSchema_safeParse v = Inr d) \<longleftrightarrow> satisfies_copilot_schema v"
  by (auto simp: CopilotCommandFrontmatterSchema_safeParse_def satisfies_copilot_schema_def
      field_issue_def check_mode_def check_optional_string_def Let_def split: if_splits)

lemma safeParse_Inl_iff:
  "(\<exists>issues. CopilotCommandFrontmatterSchema_safeParse v = Inl issues) \<longleftrightarrow>
   \<not> satisfies_copilot_schema v"
  using safeParse_Inr_iff [of v]
  by (cases "CopilotCommandFrontmatterSchema_safeParse v") auto

lemma replace_at_end_suffix: "replace_at_end pat rep (stem @ pat) = stem @ rep"
  by (induction stem) (auto, (cases pat; simp)+)

lemma replace_at_end_other: "\<not> suffix pat s \<Longrightarrow> replace_at_end pat rep s = s"
  by (induction s) (auto simp: suffix_Cons)

lemma new_valid:
  "satisfies_copilot_schema (p_frontmatter p) \<Longrightarrow> CopilotCommand_new ext p = Inr (CopilotCommand_store ext p)"
  using safeParse_Inr_iff [of "p_frontmatter p"]
  by (auto simp: CopilotCommand_new_def CopilotCommand_store_def Let_def)

lemma new_unchecked:
  "p_validate p \<noteq> Some True \<Longrightarrow> CopilotCommand_new ext p = Inr (CopilotCommand_store ext p)"
  by (simp add: CopilotCommand_new_def CopilotCommand_store_def Let_def)

lemma new_invalid:
  "p_validate p = Some True \<Longrightarrow> \<not> satisfies_copilot_schema (p_frontmatter p) \<Longrightarrow>
   \<exists>issues. CopilotCommand_new ext p =
     Inl (Error (''Invalid frontmatter in '' @
            path_join ext [p_relativeDirPath p, p_relativeFilePath p] @ '': '' @
            formatError ext issues))"
  using safeParse_Inl_iff [of "p_frontmatter p"]
  by (auto simp: CopilotCommand_new_def CopilotCommand_store_def Let_def)

lemma message_has_path: "sublist path (''Invalid frontmatter in '' @ path @ rest)"
  by (rule sublist_appendI)

lemma rulesync_new_fields:
  "RulesyncCommand_new ext p = Inr rc \<Longrightarrow>
   rs_frontmatter rc = rp_frontmatter p \<and> rs_body rc = rp_body p \<and>
   rs_relativeFilePath rc = rp_relativeFilePath p"
  by (auto simp: RulesyncCommand_new_def Let_def split: if_splits)

lemma toRulesyncCommand_fields:
  assumes "toRulesyncCommand ext c = Inr rc"
  shows "rs_frontmatter rc =
           JObj ([(''targets'', JArr [JStr ''*'']),
                  (''description'', get_prop (frontmatter c) ''description'')] @
                 (if truthy (get_prop (frontmatter c) ''model'')
                  then [(''copilot'', JObj [(''model'', get_prop (frontmatter c) ''model'')])]
                  else []))"
    and "rs_body rc = body c"
    and "rs_relativeFilePath rc = replace_at_end ''.prompt.md'' ''.md'' (relativeFilePath c)"
  using assms
  by (auto simp: toRulesyncCommand_def Let_def split: if_splits dest!: rulesync_new_fields)

lemma toRulesyncCommand_returns:
  assumes "\<not> is_nullish (frontmatter c)" "is_string (get_prop (frontmatter c) ''description'')"
    "check_optional_string (get_prop (frontmatter c) ''model'')"
  shows "\<exists>rc. toRulesyncCommand ext c = Inr rc"
proof -
  have "truthy (get_prop (frontmatter c) ''model'') \<Longrightarrow> is_string (get_prop (frontmatter c) ''model'')"
    using assms(3) by (auto simp: check_optional_string_def)
  then show ?thesis
    using assms(1,2)
    by (auto simp: toRulesyncCommand_def Let_def RulesyncCommand_new_def
        RulesyncCommandFrontmatterSchema_issues_def field_issue_def all_strings_def
        check_copilot_block_def check_optional_string_def)
qed

lemma fromRulesyncCommand_fields:
  assumes "fromRulesyncCommand ext b r v = Inr c"
  shows "frontmatter c =
           JObj [(''mode'', JStr ''agent''),
                 (''description'', get_prop (rs_frontmatter r) ''description''),
                 (''model'', get_prop (get_prop (rs_frontmatter r) ''copilot'') ''model'')]"
    and "body c = rs_body r"
    and "relativeFilePath c = replace_at_end ''.md'' ''.prompt.md'' (rs_relativeFilePath r)"
  using assms
  by (auto simp: fromRulesyncCommand_def CopilotCommand_new_def CopilotCommand_store_def Let_def opt_prop_eq
      split: if_splits sum.splits)

lemma fromRulesyncCommand_returns:
  assumes "\<not> is_nullish (rs_frontmatter r)"
    and "is_string (get_prop (rs_frontmatter r) ''description'')"
    and "check_optional_string (get_prop (get_prop (rs_frontmatter r) ''copilot'') ''model'')"
  shows "\<exists>c. fromRulesyncCommand ext b r v = Inr c"
proof -
  have "satisfies_copilot_schema
          (JObj [(''mode'', JStr ''agent''),
                 (''description'', get_prop (rs_frontmatter r) ''description''),
                 (''model'', get_prop (get_prop (rs_frontmatter r) ''copilot'') ''model'')])"
    using assms(2,3) by (simp add: satisfies_copilot_schema_def check_optional_string_def)
  then show ?thesis
    using assms(1) by (simp add: fromRulesyncCommand_def Let_def opt_prop_eq new_valid)
qed

lemma canonical_frontmatter:
  assumes "RulesyncCommandFrontmatterSchema_issues v = []"
  shows "\<not> is_nullish v" and "is_string (get_prop v ''description'')"
    and "check_optional_string (get_prop (get_prop v ''copilot'') ''model'')"
proof -
  have o: "is_object v" and d: "is_string (get_prop v ''description'')"
    and k: "check_copilot_block (get_prop v ''copilot'')"
    using assms
    by (auto simp: RulesyncCommandFrontmatterSchema_issues_def field_issue_def split: if_splits)
  show "\<not> is_nullish v" using o by (cases v) simp_all
  show "is_string (get_prop v ''description'')" by (rule d)
  show "check_optional_string (get_prop (get_prop v ''copilot'') ''model'')"
    using k by (auto simp: check_copilot_block_def check_optional_string_def)
qed

lemma three_keys:
  assumes "js_keys v = [k1, k2, k3]" and "distinct [k1, k2, k3]"
  shows "v = JObj [(k1, get_prop v k1), (k2, get_prop v k2), (k3, get_prop v k3)]"
proof (cases v)
  case (JObj kvs)
  with assms(1) obtain a b c where "kvs = [(k1, a), (k2, b), (k3, c)]"
    by (auto simp: map_eq_Cons_conv)
  with JObj assms(2) show ?thesis by auto
qed (use assms(1) in simp_all)

section \<open>The claims\<close>

subsection \<open>C1: the round trip through the canonical form\<close>

text \<open>
  Claim C1 says that for every valid copilot frontmatter M and body B, constructing a
  command, converting it with \<open>toRulesyncCommand\<close> and back with
  \<open>fromRulesyncCommand\<close> gives a document whose body is B and whose frontmatter is
  exactly M, down to the presence or absence of the model key.

  The code keeps less than that. \<open>toRulesyncCommand\<close> tests the model for truthiness,
  so an empty model does not reach the canonical form, and \<open>fromRulesyncCommand\<close>
  always writes a model key, holding \<open>undefined\<close> when the canonical form has no model.
  What holds: for every M that satisfies the schema and whose model is not the empty
  string, the round trip returns a document with body B whose frontmatter has the keys
  mode, description and model and reads the same as M at each of them; it is M itself
  when M has exactly these three keys.
\<close>

theorem roundtrip_frontmatter:
  assumes "satisfies_copilot_schema (p_frontmatter p)"
    and "get_prop (p_frontmatter p) ''model'' \<noteq> JStr []"
  shows "\<exists>c. roundtrip ext p b v = Inr c \<and> body c = p_body p \<and>
           js_keys (frontmatter c) = [''mode'', ''description'', ''model''] \<and>
           get_prop (frontmatter c) ''mode'' = get_prop (p_frontmatter p) ''mode'' \<and>
           get_prop (frontmatter c) ''description'' = get_prop (p_frontmatter p) ''description'' \<and>
           get_prop (frontmatter c) ''model'' = get_prop (p_frontmatter p) ''model'' \<and>
           (js_keys (p_frontmatter p) = [''mode'', ''description'', ''model''] \<longrightarrow>
              frontmatter c = p_frontmatter p)"
proof -
  let ?M = "p_frontmatter p"
  let ?m = "get_prop ?M ''model''"
  have mode: "get_prop ?M ''mode'' = JStr ''agent''"
    and descr: "is_string (get_prop ?M ''description'')"
    and model: "check_optional_string ?m"
    using assms(1) by (simp_all add: satisfies_copilot_schema_def check_optional_string_def)
  have same: "(if truthy ?m then ?m else JUndefined) = ?m"
    using model assms(2) by (cases ?m) (simp_all add: check_optional_string_def)
  let ?c0 = "\<lparr> baseDir = p_baseDir p, relativeDirPath = p_relativeDirPath p,
               relativeFilePath = p_relativeFilePath p,
               fileContent = stringifyFrontmatter ext (p_body p) ?M,
               frontmatter = ?M, body = p_body p \<rparr>"
  have c0: "CopilotCommand_new ext p = Inr ?c0"
    using new_valid [OF assms(1)] by (simp add: CopilotCommand_store_def)
  have "\<not> is_nullish (frontmatter ?c0)" using satisfies_truthy [OF assms(1)] by simp
  moreover have "is_string (get_prop (frontmatter ?c0) ''description'')" using descr by simp
  moreover have "check_optional_string (get_prop (frontmatter ?c0) ''model'')" using model by simp
  ultimately obtain r where r: "toRulesyncCommand ext ?c0 = Inr r"
    using toRulesyncCommand_returns by blast
  note rf = toRulesyncCommand_fields [OF r]
  have rd: "get_prop (rs_frontmatter r) ''description'' = get_prop ?M ''description''"
    by (simp add: rf(1))
  have rm: "get_prop (get_prop (rs_frontmatter r) ''copilot'') ''model'' = ?m"
    using same by (simp add: rf(1) split: if_splits)
  have "\<not> is_nullish (rs_frontmatter r)" by (simp add: rf(1))
  moreover have "is_string (get_prop (rs_frontmatter r) ''description'')" using descr rd by simp
  moreover have "check_optional_string (get_prop (get_prop (rs_frontmatter r) ''copilot'') ''model'')"
    using model rm by simp
  ultimately obtain c where c: "fromRulesyncCommand ext b r v = Inr c"
    using fromRulesyncCommand_returns by blast
  note cf = fromRulesyncCommand_fields [OF c]
  have fm: "frontmatter c =
              JObj [(''mode'', get_prop ?M ''mode''), (''description'', get_prop ?M ''description''),
                    (''model'', ?m)]"
    by (simp add: cf(1) rd rm mode)
  have rt: "roundtrip ext p b v = Inr c"
    by (simp add: roundtrip_def and_then_def c0 r c)
  have exact: "frontmatter c = ?M" if "js_keys ?M = [''mode'', ''description'', ''model'']"
    using three_keys [OF that] fm by simp
  show ?thesis
    using rt cf(2) rf(2) exact by (simp add: fm)
qed

text \<open>
  The round trip of the frontmatter with mode agent, description "Test with model" and
  model "claude-haiku-4.5".
\<close>

theorem roundtrip_frontmatter_witness:
  "satisfies_copilot_schema
     (JObj [(''mode'', JStr ''agent''), (''description'', JStr ''Test with model''),
            (''model'', JStr ''claude-haiku-4.5'')]) \<and>
   roundtrip sample_externals
     \<lparr> p_baseDir = None, p_relativeDirPath = ''.github/prompts'',
       p_relativeFilePath = ''model-test.prompt.md'', p_validate = Some True,
       p_frontmatter = JObj [(''mode'', JStr ''agent''), (''description'', JStr ''Test with model''),
                             (''model'', JStr ''claude-haiku-4.5'')],
       p_body = ''Test body'' \<rparr> None None =
   Inr \<lparr> baseDir = Some ''.'', relativeDirPath = ''.github/prompts'',
         relativeFilePath = ''model-test.prompt.md'', fileContent = ''Test body'',
         frontmatter = JObj [(''mode'', JStr ''agent''), (''description'', JStr ''Test with model''),
                             (''model'', JStr ''claude-haiku-4.5'')],
         body = ''Test body'' \<rparr>"
  using roundtrip_frontmatter [of
     "\<lparr> p_baseDir = None, p_relativeDirPath = ''.github/prompts'',
       p_relativeFilePath = ''model-test.prompt.md'', p_validate = Some True,
       p_frontmatter = JObj [(''mode'', JStr ''agent''), (''description'', JStr ''Test with model''),
                             (''model'', JStr ''claude-haiku-4.5'')],
       p_body = ''Test body'' \<rparr>" sample_externals None None]
  by (simp add: satisfies_copilot_schema_def roundtrip_def and_then_def CopilotCommand_new_def CopilotCommand_store_def
      CopilotCommandFrontmatterSchema_safeParse_def field_issue_def check_mode_def
      check_optional_string_def toRulesyncCommand_def RulesyncCommand_new_def
      RulesyncCommandFrontmatterSchema_issues_def all_strings_def check_copilot_block_def
      fromRulesyncCommand_def getSettablePaths_def opt_prop_def sample_externals_def Let_def)

text \<open>
  Two valid frontmatters that do not come back. With the model \<open>""\<close> the result holds
  \<open>undefined\<close> at model; with no model key the result has one.
\<close>

theorem roundtrip_counterexample:
  "satisfies_copilot_schema
     (JObj [(''mode'', JStr ''agent''), (''description'', JStr ''Test''), (''model'', JStr '''')]) \<and>
   (case roundtrip sample_externals
      \<lparr> p_baseDir = None, p_relativeDirPath = ''.github/prompts'',
        p_relativeFilePath = ''test.prompt.md'', p_validate = Some True,
        p_frontmatter = JObj [(''mode'', JStr ''agent''), (''description'', JStr ''Test''),
                              (''model'', JStr '''')],
        p_body = ''Hi'' \<rparr> None None of
      Inl e \<Rightarrow> False
    | Inr c \<Rightarrow>
        frontmatter c = JObj [(''mode'', JStr ''agent''), (''description'', JStr ''Test''),
                              (''model'', JUndefined)] \<and>
        frontmatter c \<noteq> JObj [(''mode'', JStr ''agent''), (''description'', JStr ''Test''),
                                 (''model'', JStr '''')] \<and>
        get_prop (frontmatter c) ''model'' \<noteq> JStr '''') \<and>
   satisfies_copilot_schema (JObj [(''mode'', JStr ''agent''), (''description'', JStr ''Test'')]) \<and>
   \<not> has_key (JObj [(''mode'', JStr ''agent''), (''description'', JStr ''Test'')]) ''model'' \<and>
   (case roundtrip sample_externals
      \<lparr> p_baseDir = None, p_relativeDirPath = ''.github/prompts'',
        p_relativeFilePath = ''test.prompt.md'', p_validate = Some True,
        p_frontmatter = JObj [(''mode'', JStr ''agent''), (''description'', JStr ''Test'')],
        p_body = ''Hi'' \<rparr> None None of
      Inl e \<Rightarrow> False
    | Inr c \<Rightarrow>
        has_key (frontmatter c) ''model'' \<and>
        frontmatter c \<noteq> JObj [(''mode'', JStr ''agent''), (''description'', JStr ''Test'')])"
  by (simp add: satisfies_copilot_schema_def roundtrip_def and_then_def CopilotCommand_new_def CopilotCommand_store_def
      CopilotCommandFrontmatterSchema_safeParse_def field_issue_def check_mode_def
      check_optional_string_def toRulesyncCommand_def RulesyncCommand_new_def
      RulesyncCommandFrontmatterSchema_issues_def all_strings_def check_copilot_block_def
      fromRulesyncCommand_def getSettablePaths_def opt_prop_def sample_externals_def Let_def)

subsection \<open>C2: the canonical frontmatter built by toRulesyncCommand\<close>

text \<open>
  Claim C2: for every copilot command, \<open>toRulesyncCommand\<close> produces a canonical
  frontmatter with targets \<open>["*"]\<close> and the description copied; it has a copilot
  block, holding the model, only when the command has a model, and no copilot key at all
  when the model is absent; the body is unchanged.

  Every result the function returns has these targets, this description and this body.
  A model that is a non-empty string is carried over: the copilot block is then the
  object holding exactly that model, after targets and description. The copilot key is
  there exactly when the model is truthy, so only when the command has a model key, and
  not when the model is undefined; then targets and description are the only keys. The
  function returns for every command whose frontmatter satisfies the copilot schema.
\<close>

theorem toRulesyncCommand_frontmatter:
  "(\<forall>rc. toRulesyncCommand ext c = Inr rc \<longrightarrow>
      get_prop (rs_frontmatter rc) ''targets'' = JArr [JStr ''*''] \<and>
      get_prop (rs_frontmatter rc) ''description'' = get_prop (frontmatter c) ''description'' \<and>
      (\<forall>m. get_prop (frontmatter c) ''model'' = JStr m \<and> m \<noteq> [] \<longrightarrow>
           get_prop (rs_frontmatter rc) ''copilot'' = JObj [(''model'', JStr m)] \<and>
           js_keys (rs_frontmatter rc) = [''targets'', ''description'', ''copilot'']) \<and>
      (has_key (rs_frontmatter rc) ''copilot'' \<longleftrightarrow> truthy (get_prop (frontmatter c) ''model'')) \<and>
      (has_key (rs_frontmatter rc) ''copilot'' \<longrightarrow>
         has_key (frontmatter c) ''model'' \<and>
         get_prop (rs_frontmatter rc) ''copilot'' =
           JObj [(''model'', get_prop (frontmatter c) ''model'')] \<and>
         js_keys (rs_frontmatter rc) = [''targets'', ''description'', ''copilot'']) \<and>
      (get_prop (frontmatter c) ''model'' = JUndefined \<longrightarrow>
         \<not> has_key (rs_frontmatter rc) ''copilot'' \<and>
         js_keys (rs_frontmatter rc) = [''targets'', ''description'']) \<and>
      rs_body rc = body c) \<and>
   (satisfies_copilot_schema (frontmatter c) \<longrightarrow> (\<exists>rc. toRulesyncCommand ext c = Inr rc))"
proof (intro conjI allI impI)
  fix rc assume r: "toRulesyncCommand ext c = Inr rc"
  note f = toRulesyncCommand_fields [OF r]
  show "get_prop (rs_frontmatter rc) ''targets'' = JArr [JStr ''*'']"
    by (simp add: f(1))
  show "get_prop (rs_frontmatter rc) ''description'' = get_prop (frontmatter c) ''description''"
    by (simp add: f(1))
  show "rs_body rc = body c" by (rule f(2))
  show iff: "has_key (rs_frontmatter rc) ''copilot'' \<longleftrightarrow>
             truthy (get_prop (frontmatter c) ''model'')"
    by (auto simp: f(1) split: if_splits)
  {
    fix m assume m: "get_prop (frontmatter c) ''model'' = JStr m \<and> m \<noteq> []"
    show "get_prop (rs_frontmatter rc) ''copilot'' = JObj [(''model'', JStr m)]"
      using m by (simp add: f(1))
    show "js_keys (rs_frontmatter rc) = [''targets'', ''description'', ''copilot'']"
      using m by (simp add: f(1))
  }
  {
    assume k: "has_key (rs_frontmatter rc) ''copilot''"
    then have t: "truthy (get_prop (frontmatter c) ''model'')"
      using iff by simp
    then have "get_prop (frontmatter c) ''model'' \<noteq> JUndefined" by auto
    then show "has_key (frontmatter c) ''model''" by (rule get_prop_has_key)
    show "get_prop (rs_frontmatter rc) ''copilot'' =
           JObj [(''model'', get_prop (frontmatter c) ''model'')]"
      using t by (simp add: f(1))
    show "js_keys (rs_frontmatter rc) = [''targets'', ''description'', ''copilot'']"
      using t by (simp add: f(1))
  }
  {
    assume u: "get_prop (frontmatter c) ''model'' = JUndefined"
    show "\<not> has_key (rs_frontmatter rc) ''copilot''" by (simp add: f(1) u)
    show "js_keys (rs_frontmatter rc) = [''targets'', ''description'']" by (simp add: f(1) u)
  }
next
  assume s: "satisfies_copilot_schema (frontmatter c)"
  have "\<not> is_nullish (frontmatter c)" using satisfies_truthy [OF s] by simp
  moreover have "is_string (get_prop (frontmatter c) ''description'')"
    using s by (simp add: satisfies_copilot_schema_def)
  moreover have "check_optional_string (get_prop (frontmatter c) ''model'')"
    using s by (simp add: satisfies_copilot_schema_def check_optional_string_def)
  ultimately show "\<exists>rc. toRulesyncCommand ext c = Inr rc"
    by (rule toRulesyncCommand_returns)
qed

text \<open>
  The example of the specification: description "Test", model "claude-haiku-4.5", body "Hi".
\<close>

theorem toRulesyncCommand_frontmatter_witness:
  "satisfies_copilot_schema
     (JObj [(''mode'', JStr ''agent''), (''description'', JStr ''Test''),
            (''model'', JStr ''claude-haiku-4.5'')]) \<and>
   get_prop (JObj [(''mode'', JStr ''agent''), (''description'', JStr ''Test''),
                   (''model'', JStr ''claude-haiku-4.5'')]) ''model'' = JStr ''claude-haiku-4.5'' \<and>
   ''claude-haiku-4.5'' \<noteq> [] \<and>
   toRulesyncCommand sample_externals
     \<lparr> baseDir = None, relativeDirPath = ''.github/prompts'',
       relativeFilePath = ''model-test.prompt.md'', fileContent = ''Hi'',
       frontmatter = JObj [(''mode'', JStr ''agent''), (''description'', JStr ''Test''),
                           (''model'', JStr ''claude-haiku-4.5'')],
       body = ''Hi'' \<rparr> =
   Inr \<lparr> rs_baseDir = Some ''.'', rs_relativeDirPath = ''.rulesync/commands'',
         rs_relativeFilePath = ''model-test.md'', rs_fileContent = ''Hi'',
         rs_frontmatter = JObj [(''targets'', JArr [JStr ''*'']), (''description'', JStr ''Test''),
                                (''copilot'', JObj [(''model'', JStr ''claude-haiku-4.5'')])],
         rs_body = ''Hi'' \<rparr>"
  using toRulesyncCommand_frontmatter [of sample_externals
     "\<lparr> baseDir = None, relativeDirPath = ''.github/prompts'',
       relativeFilePath = ''model-test.prompt.md'', fileContent = ''Hi'',
       frontmatter = JObj [(''mode'', JStr ''agent''), (''description'', JStr ''Test''),
                           (''model'', JStr ''claude-haiku-4.5'')],
       body = ''Hi'' \<rparr>"]
  by (simp add: satisfies_copilot_schema_def toRulesyncCommand_def RulesyncCommand_new_def
      RulesyncCommandFrontmatterSchema_issues_def field_issue_def all_strings_def
      check_copilot_block_def check_optional_string_def sample_externals_def Let_def)

subsection \<open>C3: the copilot frontmatter built by fromRulesyncCommand\<close>

text \<open>
  Claim C3 says that \<open>fromRulesyncCommand\<close> gives a frontmatter with mode agent, the
  canonical description, and the model of the canonical copilot block when there is
  one, and otherwise no model key.

  The object literal of the code always has the key: \<open>model: copilot?.model\<close> stores
  \<open>undefined\<close> under it when the canonical form has no model. What holds: for every
  canonical command (one whose frontmatter satisfies the canonical schema) the function
  returns a command whose frontmatter has exactly the keys mode, description and model,
  with mode agent, the description copied, and at model the model of the copilot block,
  which is \<open>undefined\<close> when there is no such block or no model in it.
\<close>

theorem fromRulesyncCommand_frontmatter:
  assumes "RulesyncCommandFrontmatterSchema_issues (rs_frontmatter r) = []"
  shows "\<exists>c. fromRulesyncCommand ext b r v = Inr c \<and>
           get_prop (frontmatter c) ''mode'' = JStr ''agent'' \<and>
           get_prop (frontmatter c) ''description'' = get_prop (rs_frontmatter r) ''description'' \<and>
           get_prop (frontmatter c) ''model'' =
             get_prop (get_prop (rs_frontmatter r) ''copilot'') ''model'' \<and>
           js_keys (frontmatter c) = [''mode'', ''description'', ''model'']"
proof -
  obtain c where c: "fromRulesyncCommand ext b r v = Inr c"
    using fromRulesyncCommand_returns [OF canonical_frontmatter [OF assms]] by blast
  show ?thesis
    using c fromRulesyncCommand_fields(1) [OF c] by simp
qed

text \<open>
  A canonical command with a copilot model, read back.
\<close>

theorem fromRulesyncCommand_frontmatter_witness:
  "RulesyncCommandFrontmatterSchema_issues
     (JObj [(''targets'', JArr [JStr ''copilot'']), (''description'', JStr ''Command with model''),
            (''copilot'', JObj [(''model'', JStr ''claude-haiku-4.5'')])]) = [] \<and>
   fromRulesyncCommand sample_externals None
     \<lparr> rs_baseDir = None, rs_relativeDirPath = ''.rulesync/commands'',
       rs_relativeFilePath = ''model-command.md'', rs_fileContent = '''',
       rs_frontmatter =
         JObj [(''targets'', JArr [JStr ''copilot'']), (''description'', JStr ''Command with model''),
               (''copilot'', JObj [(''model'', JStr ''claude-haiku-4.5'')])],
       rs_body = ''Model test content'' \<rparr> (Some True) =
   Inr \<lparr> baseDir = Some ''.'', relativeDirPath = ''.github/prompts'',
         relativeFilePath = ''model-command.prompt.md'', fileContent = ''Model test content'',
         frontmatter = JObj [(''mode'', JStr ''agent''), (''description'', JStr ''Command with model''),
                             (''model'', JStr ''claude-haiku-4.5'')],
         body = ''Model test content'' \<rparr>"
  using fromRulesyncCommand_frontmatter [of
     "\<lparr> rs_baseDir = None, rs_relativeDirPath = ''.rulesync/commands'',
       rs_relativeFilePath = ''model-command.md'', rs_fileContent = '''',
       rs_frontmatter =
         JObj [(''targets'', JArr [JStr ''copilot'']), (''description'', JStr ''Command with model''),
               (''copilot'', JObj [(''model'', JStr ''claude-haiku-4.5'')])],
       rs_body = ''Model test content'' \<rparr>" sample_externals None "Some True"]
  by (simp add: RulesyncCommandFrontmatterSchema_issues_def field_issue_def all_strings_def
      check_copilot_block_def check_optional_string_def fromRulesyncCommand_def
      CopilotCommand_new_def CopilotCommand_store_def CopilotCommandFrontmatterSchema_safeParse_def check_mode_def
      getSettablePaths_def opt_prop_def sample_externals_def Let_def)

text \<open>
  A canonical command with no copilot block: the frontmatter that comes back has a model
  key, holding \<open>undefined\<close>.
\<close>

theorem fromRulesyncCommand_model_key_counterexample:
  "RulesyncCommandFrontmatterSchema_issues
     (JObj [(''targets'', JArr [JStr ''copilot'']),
            (''description'', JStr ''Command without model'')]) = [] \<and>
   (case fromRulesyncCommand sample_externals None
      \<lparr> rs_baseDir = None, rs_relativeDirPath = ''.rulesync/commands'',
        rs_relativeFilePath = ''no-model-command.md'', rs_fileContent = '''',
        rs_frontmatter =
          JObj [(''targets'', JArr [JStr ''copilot'']),
                (''description'', JStr ''Command without model'')],
        rs_body = ''No model content'' \<rparr> (Some True) of
      Inl e \<Rightarrow> False
    | Inr c \<Rightarrow>
        has_key (frontmatter c) ''model'' \<and>
        frontmatter c = JObj [(''mode'', JStr ''agent''),
                              (''description'', JStr ''Command without model''),
                              (''model'', JUndefined)])"
  by (simp add: RulesyncCommandFrontmatterSchema_issues_def field_issue_def all_strings_def
      check_copilot_block_def check_optional_string_def fromRulesyncCommand_def
      CopilotCommand_new_def CopilotCommand_store_def CopilotCommandFrontmatterSchema_safeParse_def check_mode_def
      getSettablePaths_def opt_prop_def sample_externals_def Let_def)

subsection \<open>C4: the constructor and the validate flag\<close>

text \<open>
  Claim C4: with validate set, the constructor throws exactly when the frontmatter fails
  the copilot schema, and the message of the error includes the file path (the joined
  directory and file name); with validate false it never throws, whatever the frontmatter
  is. The frontmatter ranges over all values, not only objects.
\<close>

theorem constructor_validation:
  "(p_validate p = Some True \<longrightarrow>
      (\<not> satisfies_copilot_schema (p_frontmatter p) \<longrightarrow>
         (\<exists>msg. CopilotCommand_new ext p = Inl (Error msg) \<and>
                sublist (path_join ext [p_relativeDirPath p, p_relativeFilePath p]) msg)) \<and>
      (satisfies_copilot_schema (p_frontmatter p) \<longrightarrow>
         (\<exists>c. CopilotCommand_new ext p = Inr c \<and> frontmatter c = p_frontmatter p \<and>
              body c = p_body p))) \<and>
   (p_validate p = Some False \<longrightarrow>
      (\<exists>c. CopilotCommand_new ext p = Inr c \<and> frontmatter c = p_frontmatter p \<and>
           body c = p_body p))"
proof (intro conjI impI)
  assume v: "p_validate p = Some True" and bad: "\<not> satisfies_copilot_schema (p_frontmatter p)"
  from new_invalid [OF v bad, of ext] obtain issues where
    "CopilotCommand_new ext p =
       Inl (Error (''Invalid frontmatter in '' @
            path_join ext [p_relativeDirPath p, p_relativeFilePath p] @ '': '' @
            formatError ext issues))" by blast
  then show "\<exists>msg. CopilotCommand_new ext p = Inl (Error msg) \<and>
                sublist (path_join ext [p_relativeDirPath p, p_relativeFilePath p]) msg"
    using message_has_path by blast
next
  assume "satisfies_copilot_schema (p_frontmatter p)"
  then show "\<exists>c. CopilotCommand_new ext p = Inr c \<and> frontmatter c = p_frontmatter p \<and>
              body c = p_body p"
    by (simp add: new_valid CopilotCommand_store_def)
next
  assume "p_validate p = Some False"
  then show "\<exists>c. CopilotCommand_new ext p = Inr c \<and> frontmatter c = p_frontmatter p \<and>
              body c = p_body p"
    by (simp add: new_unchecked CopilotCommand_store_def)
qed

text \<open>
  The empty object as frontmatter: refused with validate set, stored with validate false.
\<close>

theorem constructor_validation_witness:
  "\<not> satisfies_copilot_schema (JObj []) \<and>
   CopilotCommand_new sample_externals
     \<lparr> p_baseDir = None, p_relativeDirPath = ''.github/prompts'',
       p_relativeFilePath = ''invalid-command.prompt.md'', p_validate = Some True,
       p_frontmatter = JObj [], p_body = ''Body content'' \<rparr> =
   Inl (Error ''Invalid frontmatter in .github/prompts/invalid-command.prompt.md: mode is invalid; description is invalid; '') \<and>
   sublist ''.github/prompts/invalid-command.prompt.md''
     ''Invalid frontmatter in .github/prompts/invalid-command.prompt.md: mode is invalid; description is invalid; '' \<and>
   CopilotCommand_new sample_externals
     \<lparr> p_baseDir = None, p_relativeDirPath = ''.github/prompts'',
       p_relativeFilePath = ''invalid-command.prompt.md'', p_validate = Some False,
       p_frontmatter = JObj [], p_body = ''Body content'' \<rparr> =
   Inr \<lparr> baseDir = None, relativeDirPath = ''.github/prompts'',
         relativeFilePath = ''invalid-command.prompt.md'', fileContent = ''Body content'',
         frontmatter = JObj [], body = ''Body content'' \<rparr>"
  using constructor_validation [of
     "\<lparr> p_baseDir = None, p_relativeDirPath = ''.github/prompts'',
       p_relativeFilePath = ''invalid-command.prompt.md'', p_validate = Some True,
       p_frontmatter = JObj [], p_body = ''Body content'' \<rparr>" sample_externals]
    constructor_validation [of
     "\<lparr> p_baseDir = None, p_relativeDirPath = ''.github/prompts'',
       p_relativeFilePath = ''invalid-command.prompt.md'', p_validate = Some False,
       p_frontmatter = JObj [], p_body = ''Body content'' \<rparr>" sample_externals]
  by (auto simp: satisfies_copilot_schema_def CopilotCommand_new_def CopilotCommand_store_def
      CopilotCommandFrontmatterSchema_safeParse_def field_issue_def check_mode_def
      check_optional_string_def sample_externals_def Let_def)

subsection \<open>C5: which canonical commands target copilot\<close>

text \<open>
  Claim C5: \<open>isTargetedByRulesyncCommand\<close> is true if and only if the targets of the
  canonical command are undefined, or contain the wildcard \<open>"*"\<close>, or contain
  \<open>"copilot"\<close>; so it is false for every other array of targets.
\<close>

theorem isTargetedBy_iff:
  "isTargetedByRulesyncCommand rc \<longleftrightarrow>
     get_prop (rs_frontmatter rc) ''targets'' = JUndefined \<or>
     (\<exists>ts. get_prop (rs_frontmatter rc) ''targets'' = JArr ts \<and>
           (JStr ''*'' \<in> set ts \<or> JStr ''copilot'' \<in> set ts))"
  by (auto simp: isTargetedByRulesyncCommand_def isTargetedByRulesyncCommandDefault_def
      split: jsval.splits)

text \<open>
  Targets cursor, copilot and cline are matched, the single target cursor is not, and
  undefined targets are.
\<close>

theorem isTargetedBy_iff_witness:
  "isTargetedByRulesyncCommand
     \<lparr> rs_baseDir = None, rs_relativeDirPath = ''.rulesync/commands'',
       rs_relativeFilePath = ''test.md'', rs_fileContent = '''',
       rs_frontmatter = JObj [(''targets'', JArr [JStr ''cursor'', JStr ''copilot'', JStr ''cline'']),
                              (''description'', JStr ''Test'')],
       rs_body = ''Body'' \<rparr> \<and>
   \<not> isTargetedByRulesyncCommand
     \<lparr> rs_baseDir = None, rs_relativeDirPath = ''.rulesync/commands'',
       rs_relativeFilePath = ''test.md'', rs_fileContent = '''',
       rs_frontmatter = JObj [(''targets'', JArr [JStr ''cursor'']), (''description'', JStr ''Test'')],
       rs_body = ''Body'' \<rparr> \<and>
   isTargetedByRulesyncCommand
     \<lparr> rs_baseDir = None, rs_relativeDirPath = ''.rulesync/commands'',
       rs_relativeFilePath = ''test.md'', rs_fileContent = '''',
       rs_frontmatter = JObj [(''targets'', JUndefined), (''description'', JStr ''Test'')],
       rs_body = ''Body'' \<rparr>"
  using isTargetedBy_iff [of
     "\<lparr> rs_baseDir = None, rs_relativeDirPath = ''.rulesync/commands'',
       rs_relativeFilePath = ''test.md'', rs_fileContent = '''',
       rs_frontmatter = JObj [(''targets'', JArr [JStr ''cursor'', JStr ''copilot'', JStr ''cline'']),
                              (''description'', JStr ''Test'')],
       rs_body = ''Body'' \<rparr>"]
    isTargetedBy_iff [of
     "\<lparr> rs_baseDir = None, rs_relativeDirPath = ''.rulesync/commands'',
       rs_relativeFilePath = ''test.md'', rs_fileContent = '''',
       rs_frontmatter = JObj [(''targets'', JArr [JStr ''cursor'']), (''description'', JStr ''Test'')],
       rs_body = ''Body'' \<rparr>"]
    isTargetedBy_iff [of
     "\<lparr> rs_baseDir = None, rs_relativeDirPath = ''.rulesync/commands'',
       rs_relativeFilePath = ''test.md'', rs_fileContent = '''',
       rs_frontmatter = JObj [(''targets'', JUndefined), (''description'', JStr ''Test'')],
       rs_body = ''Body'' \<rparr>"]
  by simp

subsection \<open>C6: rewriting the file name\<close>

text \<open>
  Claim C6: both conversions rewrite only a suffix that ends the file name.
  \<open>toRulesyncCommand\<close> turns a name \<open>stem.prompt.md\<close> into \<open>stem.md\<close> and leaves
  a name that does not end in \<open>.prompt.md\<close> as it is; \<open>fromRulesyncCommand\<close> turns
  \<open>stem.md\<close> into \<open>stem.prompt.md\<close> (and leaves a name that does not end in
  \<open>.md\<close> as it is). The stem is arbitrary and comes through unchanged, so an earlier
  occurrence of the suffix is never touched. Both conversions return on well-formed
  input.
\<close>

theorem filename_rewriting:
  "(\<forall>rc. toRulesyncCommand ext c = Inr rc \<longrightarrow>
      (\<forall>stem. relativeFilePath c = stem @ ''.prompt.md'' \<longrightarrow>
              rs_relativeFilePath rc = stem @ ''.md'') \<and>
      (\<not> suffix ''.prompt.md'' (relativeFilePath c) \<longrightarrow>
         rs_relativeFilePath rc = relativeFilePath c)) \<and>
   (\<forall>c'. fromRulesyncCommand ext b r v = Inr c' \<longrightarrow>
      (\<forall>stem. rs_relativeFilePath r = stem @ ''.md'' \<longrightarrow>
              relativeFilePath c' = stem @ ''.prompt.md'') \<and>
      (\<not> suffix ''.md'' (rs_relativeFilePath r) \<longrightarrow>
         relativeFilePath c' = rs_relativeFilePath r)) \<and>
   (satisfies_copilot_schema (frontmatter c) \<longrightarrow> (\<exists>rc. toRulesyncCommand ext c = Inr rc)) \<and>
   (RulesyncCommandFrontmatterSchema_issues (rs_frontmatter r) = [] \<longrightarrow>
      (\<exists>c'. fromRulesyncCommand ext b r v = Inr c'))"
proof (intro conjI impI allI)
  fix rc stem
  assume "toRulesyncCommand ext c = Inr rc" "relativeFilePath c = stem @ ''.prompt.md''"
  then show "rs_relativeFilePath rc = stem @ ''.md''"
    using toRulesyncCommand_fields(3) replace_at_end_suffix by metis
next
  fix rc
  assume "toRulesyncCommand ext c = Inr rc" "\<not> suffix ''.prompt.md'' (relativeFilePath c)"
  then show "rs_relativeFilePath rc = relativeFilePath c"
    using toRulesyncCommand_fields(3) replace_at_end_other by metis
next
  fix c' stem
  assume "fromRulesyncCommand ext b r v = Inr c'" "rs_relativeFilePath r = stem @ ''.md''"
  then show "relativeFilePath c' = stem @ ''.prompt.md''"
    using fromRulesyncCommand_fields(3) replace_at_end_suffix by metis
next
  fix c'
  assume "fromRulesyncCommand ext b r v = Inr c'" "\<not> suffix ''.md'' (rs_relativeFilePath r)"
  then show "relativeFilePath c' = rs_relativeFilePath r"
    using fromRulesyncCommand_fields(3) replace_at_end_other by metis
next
  assume s: "satisfies_copilot_schema (frontmatter c)"
  have "\<not> is_nullish (frontmatter c)" using satisfies_truthy [OF s] by simp
  moreover have "is_string (get_prop (frontmatter c) ''description'')"
    using s by (simp add: satisfies_copilot_schema_def)
  moreover have "check_optional_string (get_prop (frontmatter c) ''model'')"
    using s by (simp add: satisfies_copilot_schema_def check_optional_string_def)
  ultimately show "\<exists>rc. toRulesyncCommand ext c = Inr rc"
    by (rule toRulesyncCommand_returns)
next
  assume "RulesyncCommandFrontmatterSchema_issues (rs_frontmatter r) = []"
  then show "\<exists>c'. fromRulesyncCommand ext b r v = Inr c'"
    using fromRulesyncCommand_returns [OF canonical_frontmatter] by blast
qed

text \<open>
  Names that contain the suffix twice: only the last occurrence is rewritten.
\<close>

theorem filename_rewriting_witness:
  "satisfies_copilot_schema (JObj [(''mode'', JStr ''agent''), (''description'', JStr ''Test'')]) \<and>
   RulesyncCommandFrontmatterSchema_issues
     (JObj [(''targets'', JArr [JStr ''*'']), (''description'', JStr ''Test'')]) = [] \<and>
   toRulesyncCommand sample_externals
     \<lparr> baseDir = None, relativeDirPath = ''.github/prompts'',
       relativeFilePath = ''a.prompt.md.prompt.md'', fileContent = ''Hi'',
       frontmatter = JObj [(''mode'', JStr ''agent''), (''description'', JStr ''Test'')],
       body = ''Hi'' \<rparr> =
   Inr \<lparr> rs_baseDir = Some ''.'', rs_relativeDirPath = ''.rulesync/commands'',
         rs_relativeFilePath = ''a.prompt.md.md'', rs_fileContent = ''Hi'',
         rs_frontmatter = JObj [(''targets'', JArr [JStr ''*'']), (''description'', JStr ''Test'')],
         rs_body = ''Hi'' \<rparr> \<and>
   ''a.prompt.md.prompt.md'' = ''a.prompt.md'' @ ''.prompt.md'' \<and>
   ''a.prompt.md.md'' = ''a.prompt.md'' @ ''.md'' \<and>
   fromRulesyncCommand sample_externals None
     \<lparr> rs_baseDir = Some ''.'', rs_relativeDirPath = ''.rulesync/commands'',
       rs_relativeFilePath = ''a.md.b.md'', rs_fileContent = ''Hi'',
       rs_frontmatter = JObj [(''targets'', JArr [JStr ''*'']), (''description'', JStr ''Test'')],
       rs_body = ''Hi'' \<rparr> None =
   Inr \<lparr> baseDir = Some ''.'', relativeDirPath = ''.github/prompts'',
         relativeFilePath = ''a.md.b.prompt.md'', fileContent = ''Hi'',
         frontmatter = JObj [(''mode'', JStr ''agent''), (''description'', JStr ''Test''),
                             (''model'', JUndefined)],
         body = ''Hi'' \<rparr> \<and>
   ''a.md.b.md'' = ''a.md.b'' @ ''.md'' \<and>
   ''a.md.b.prompt.md'' = ''a.md.b'' @ ''.prompt.md''"
  using filename_rewriting [of sample_externals
     "\<lparr> baseDir = None, relativeDirPath = ''.github/prompts'',
       relativeFilePath = ''a.prompt.md.prompt.md'', fileContent = ''Hi'',
       frontmatter = JObj [(''mode'', JStr ''agent''), (''description'', JStr ''Test'')],
       body = ''Hi'' \<rparr>"
     None
     "\<lparr> rs_baseDir = Some ''.'', rs_relativeDirPath = ''.rulesync/commands'',
       rs_relativeFilePath = ''a.md.b.md'', rs_fileContent = ''Hi'',
       rs_frontmatter = JObj [(''targets'', JArr [JStr ''*'']), (''description'', JStr ''Test'')],
       rs_body = ''Hi'' \<rparr>"
     None]
  by (simp add: satisfies_copilot_schema_def toRulesyncCommand_def RulesyncCommand_new_def
      RulesyncCommandFrontmatterSchema_issues_def field_issue_def all_strings_def
      check_copilot_block_def check_optional_string_def fromRulesyncCommand_def
      CopilotCommand_new_def CopilotCommand_store_def CopilotCommandFrontmatterSchema_safeParse_def check_mode_def
      getSettablePaths_def opt_prop_def sample_externals_def Let_def)

subsection \<open>C7: the result of validate\<close>

text \<open>
  Claim C7 says that \<open>validate()\<close> never throws, returns success when the stored
  frontmatter satisfies the schema, and returns a failure whose message includes the file
  path when it does not.

  The method returns success before any schema check when the frontmatter is falsy, and
  no falsy value satisfies the schema. What holds: \<open>validate\<close> always returns a result;
  it is \<open>{success: true, error: null}\<close> when the frontmatter is falsy or satisfies the
  schema, and a failure with an error whose message includes the file path when the
  frontmatter is truthy and fails the schema.
\<close>

theorem validate_result:
  "(\<not> truthy (frontmatter c) \<or> satisfies_copilot_schema (frontmatter c) \<longrightarrow>
      validate ext c = ValidationResult True None) \<and>
   (truthy (frontmatter c) \<and> \<not> satisfies_copilot_schema (frontmatter c) \<longrightarrow>
      (\<exists>msg. validate ext c = ValidationResult False (Some (Error msg)) \<and>
             sublist (path_join ext [relativeDirPath c, relativeFilePath c]) msg))"
proof (intro conjI impI)
  assume "\<not> truthy (frontmatter c) \<or> satisfies_copilot_schema (frontmatter c)"
  then show "validate ext c = ValidationResult True None"
    using safeParse_Inr_iff [of "frontmatter c"] by (auto simp: validate_def)
next
  assume a: "truthy (frontmatter c) \<and> \<not> satisfies_copilot_schema (frontmatter c)"
  then obtain issues where "CopilotCommandFrontmatterSchema_safeParse (frontmatter c) = Inl issues"
    using safeParse_Inl_iff by blast
  then have "validate ext c = ValidationResult False (Some (Error (''Invalid frontmatter in '' @
                     path_join ext [relativeDirPath c, relativeFilePath c] @ '': '' @
                     formatError ext issues)))"
    using a by (simp add: validate_def)
  then show "\<exists>msg. validate ext c = ValidationResult False (Some (Error msg)) \<and>
             sublist (path_join ext [relativeDirPath c, relativeFilePath c]) msg"
    using message_has_path by blast
qed

text \<open>
  A frontmatter without mode is reported; a valid one passes.
\<close>

theorem validate_result_witness:
  "truthy (JObj [(''description'', JStr ''Test'')]) \<and>
   \<not> satisfies_copilot_schema (JObj [(''description'', JStr ''Test'')]) \<and>
   validate sample_externals
     \<lparr> baseDir = None, relativeDirPath = ''.github/prompts'',
       relativeFilePath = ''invalid-command.prompt.md'', fileContent = ''Body content'',
       frontmatter = JObj [(''description'', JStr ''Test'')], body = ''Body content'' \<rparr> =
   ValidationResult False
     (Some (Error ''Invalid frontmatter in .github/prompts/invalid-command.prompt.md: mode is invalid; '')) \<and>
   sublist ''.github/prompts/invalid-command.prompt.md''
     ''Invalid frontmatter in .github/prompts/invalid-command.prompt.md: mode is invalid; '' \<and>
   satisfies_copilot_schema
     (JObj [(''mode'', JStr ''agent''), (''description'', JStr ''Valid description'')]) \<and>
   validate sample_externals
     \<lparr> baseDir = None, relativeDirPath = ''.github/prompts'',
       relativeFilePath = ''valid-command.prompt.md'', fileContent = ''Valid body'',
       frontmatter = JObj [(''mode'', JStr ''agent''), (''description'', JStr ''Valid description'')],
       body = ''Valid body'' \<rparr> =
   ValidationResult True None"
  using validate_result [of
     "\<lparr> baseDir = None, relativeDirPath = ''.github/prompts'',
       relativeFilePath = ''invalid-command.prompt.md'', fileContent = ''Body content'',
       frontmatter = JObj [(''description'', JStr ''Test'')], body = ''Body content'' \<rparr>"
     sample_externals]
    validate_result [of
     "\<lparr> baseDir = None, relativeDirPath = ''.github/prompts'',
       relativeFilePath = ''valid-command.prompt.md'', fileContent = ''Valid body'',
       frontmatter = JObj [(''mode'', JStr ''agent''), (''description'', JStr ''Valid description'')],
       body = ''Valid body'' \<rparr>"
     sample_externals]
  by (auto simp: satisfies_copilot_schema_def validate_def
      CopilotCommandFrontmatterSchema_safeParse_def field_issue_def check_mode_def
      check_optional_string_def sample_externals_def Let_def)

text \<open>
  A command holding \<open>undefined\<close> as frontmatter, which fails the schema: \<open>validate\<close>
  reports success.
\<close>

theorem validate_counterexample:
  "\<not> satisfies_copilot_schema JUndefined \<and>
   validate sample_externals
     \<lparr> baseDir = None, relativeDirPath = ''.github/prompts'',
       relativeFilePath = ''test-command.prompt.md'', fileContent = ''Test body'',
       frontmatter = JUndefined, body = ''Test body'' \<rparr> =
   ValidationResult True None"
  by (simp add: satisfies_copilot_schema_def validate_def)

subsection \<open>C8: an empty model counts as no model\<close>

text \<open>
  Claim C8: the test for the model in \<open>toRulesyncCommand\<close> is a truthiness test. A
  command whose model is the empty string gets a canonical frontmatter with no copilot
  block, the same frontmatter as a command with the same description and no model key.
\<close>

theorem empty_model_dropped:
  assumes "get_prop (frontmatter c) ''model'' = JStr []"
    and "is_string (get_prop (frontmatter c) ''description'')"
    and "\<not> is_nullish (frontmatter c')" and "\<not> has_key (frontmatter c') ''model''"
    and "get_prop (frontmatter c') ''description'' = get_prop (frontmatter c) ''description''"
  shows "\<exists>rc rc'. toRulesyncCommand ext c = Inr rc \<and> toRulesyncCommand ext c' = Inr rc' \<and>
           \<not> has_key (rs_frontmatter rc) ''copilot'' \<and>
           rs_frontmatter rc =
             JObj [(''targets'', JArr [JStr ''*'']),
                   (''description'', get_prop (frontmatter c) ''description'')] \<and>
           rs_frontmatter rc' = rs_frontmatter rc"
proof -
  have n: "\<not> is_nullish (frontmatter c)" using assms(1) by (cases "frontmatter c") auto
  have u: "get_prop (frontmatter c') ''model'' = JUndefined"
    using assms(4) get_prop_has_key by blast
  obtain rc where rc: "toRulesyncCommand ext c = Inr rc"
    using toRulesyncCommand_returns [OF n assms(2), of ext] assms(1)
    by (auto simp: check_optional_string_def)
  obtain rc' where rc': "toRulesyncCommand ext c' = Inr rc'"
    using toRulesyncCommand_returns [OF assms(3), of ext] assms(2,5) u
    by (auto simp: check_optional_string_def)
  show ?thesis
    using toRulesyncCommand_fields(1) [OF rc] toRulesyncCommand_fields(1) [OF rc'] rc rc'
    by (simp add: assms(1,5) u)
qed

text \<open>
  The same command with model \<open>""\<close> and with no model.
\<close>

theorem empty_model_dropped_witness:
  "get_prop (JObj [(''mode'', JStr ''agent''), (''description'', JStr ''Test''),
                   (''model'', JStr '''')]) ''model'' = JStr '''' \<and>
   \<not> has_key (JObj [(''mode'', JStr ''agent''), (''description'', JStr ''Test'')]) ''model'' \<and>
   toRulesyncCommand sample_externals
     \<lparr> baseDir = None, relativeDirPath = ''.github/prompts'',
       relativeFilePath = ''no-model.prompt.md'', fileContent = ''Test body'',
       frontmatter = JObj [(''mode'', JStr ''agent''), (''description'', JStr ''Test''),
                           (''model'', JStr '''')],
       body = ''Test body'' \<rparr> =
   Inr \<lparr> rs_baseDir = Some ''.'', rs_relativeDirPath = ''.rulesync/commands'',
         rs_relativeFilePath = ''no-model.md'', rs_fileContent = ''Test body'',
         rs_frontmatter = JObj [(''targets'', JArr [JStr ''*'']), (''description'', JStr ''Test'')],
         rs_body = ''Test body'' \<rparr> \<and>
   toRulesyncCommand sample_externals
     \<lparr> baseDir = None, relativeDirPath = ''.github/prompts'',
       relativeFilePath = ''no-model.prompt.md'', fileContent = ''Test body'',
       frontmatter = JObj [(''mode'', JStr ''agent''), (''description'', JStr ''Test'')],
       body = ''Test body'' \<rparr> =
   Inr \<lparr> rs_baseDir = Some ''.'', rs_relativeDirPath = ''.rulesync/commands'',
         rs_relativeFilePath = ''no-model.md'', rs_fileContent = ''Test body'',
         rs_frontmatter = JObj [(''targets'', JArr [JStr ''*'']), (''description'', JStr ''Test'')],
         rs_body = ''Test body'' \<rparr>"
  using empty_model_dropped [of
     "\<lparr> baseDir = None, relativeDirPath = ''.github/prompts'',
       relativeFilePath = ''no-model.prompt.md'', fileContent = ''Test body'',
       frontmatter = JObj [(''mode'', JStr ''agent''), (''description'', JStr ''Test''),
                           (''model'', JStr '''')],
       body = ''Test body'' \<rparr>"
     "\<lparr> baseDir = None, relativeDirPath = ''.github/prompts'',
       relativeFilePath = ''no-model.prompt.md'', fileContent = ''Test body'',
       frontmatter = JObj [(''mode'', JStr ''agent''), (''description'', JStr ''Test'')],
       body = ''Test body'' \<rparr>" sample_externals]
  by (simp add: toRulesyncCommand_def RulesyncCommand_new_def
      RulesyncCommandFrontmatterSchema_issues_def field_issue_def all_strings_def
      check_copilot_block_def check_optional_string_def sample_externals_def Let_def)

subsection \<open>C9: validate on a falsy frontmatter\<close>

text \<open>
  Claim C9: when the stored frontmatter is falsy, \<open>validate()\<close> returns
  \<open>{success: true, error: null}\<close> although the frontmatter does not satisfy the schema.
  Such a command cannot come from the constructor with validate set, which throws on it.
\<close>

theorem validate_falsy_frontmatter:
  assumes "\<not> truthy (frontmatter c)"
  shows "validate ext c = ValidationResult True None \<and>
         \<not> satisfies_copilot_schema (frontmatter c) \<and>
         (\<forall>p. p_frontmatter p = frontmatter c \<and> p_validate p = Some True \<longrightarrow>
              (\<exists>e. CopilotCommand_new ext p = Inl e))"
proof -
  have bad: "\<not> satisfies_copilot_schema (frontmatter c)"
    using assms satisfies_truthy by blast
  have "\<exists>e. CopilotCommand_new ext p = Inl e"
    if "p_frontmatter p = frontmatter c \<and> p_validate p = Some True" for p
    using new_invalid [of p ext] that bad by auto
  then show ?thesis using assms bad by (simp add: validate_def)
qed

text \<open>
  The frontmatter \<open>undefined\<close>.
\<close>

theorem validate_falsy_frontmatter_witness:
  "\<not> truthy JUndefined \<and>
   validate sample_externals
     \<lparr> baseDir = None, relativeDirPath = ''.github/prompts'',
       relativeFilePath = ''test-command.prompt.md'', fileContent = ''Test body'',
       frontmatter = JUndefined, body = ''Test body'' \<rparr> =
   ValidationResult True None \<and>
   \<not> satisfies_copilot_schema JUndefined"
  using validate_falsy_frontmatter [of
     "\<lparr> baseDir = None, relativeDirPath = ''.github/prompts'',
       relativeFilePath = ''test-command.prompt.md'', fileContent = ''Test body'',
       frontmatter = JUndefined, body = ''Test body'' \<rparr>" sample_externals]
  by simp

subsection \<open>C10: fromFile validates whatever the flag\<close>

text \<open>
  Claim C10: \<open>fromFile\<close> checks the parsed frontmatter against the schema before it
  constructs anything, so when the file is read and parsed and its frontmatter fails the
  schema, \<open>fromFile\<close> rejects with the same error for every value of the validate flag,
  \<open>false\<close> included; the message includes the path of the file.
\<close>

theorem fromFile_always_validates:
  assumes "readFileContent ext
             (path_join ext [(case b of None \<Rightarrow> ''.'' | Some d \<Rightarrow> d), getSettablePaths ext, rel])
           = Inr fileText"
    and "parseFrontmatter ext fileText = Inr (fm, rest)"
    and "\<not> satisfies_copilot_schema fm"
  shows "\<exists>msg. (\<forall>v. fromFile ext b rel v = Inl (Error msg)) \<and>
           sublist (path_join ext [(case b of None \<Rightarrow> ''.'' | Some d \<Rightarrow> d),
                                   getSettablePaths ext, rel]) msg"
proof -
  obtain issues where i: "CopilotCommandFrontmatterSchema_safeParse fm = Inl issues"
    using assms(3) safeParse_Inl_iff by blast
  let ?path = "path_join ext [(case b of None \<Rightarrow> ''.'' | Some d \<Rightarrow> d), getSettablePaths ext, rel]"
  have "\<forall>v. fromFile ext b rel v =
          Inl (Error (''Invalid frontmatter in '' @ ?path @ '': '' @ formatError ext issues))"
    using assms(1,2) i by (simp add: fromFile_def Let_def)
  then show ?thesis using message_has_path by blast
qed

text \<open>
  The prompt file of the sample environment, whose frontmatter has no mode, read with
  validate false, true and left out.
\<close>

theorem fromFile_always_validates_witness:
  "readFileContent sample_externals
     (path_join sample_externals [''.'', getSettablePaths sample_externals,
                                  ''invalid-command.prompt.md'']) = Inr ''description: Test'' \<and>
   parseFrontmatter sample_externals ''description: Test'' =
     Inr (JObj [(''description'', JStr ''Test'')], ''Body content'') \<and>
   \<not> satisfies_copilot_schema (JObj [(''description'', JStr ''Test'')]) \<and>
   fromFile sample_externals None ''invalid-command.prompt.md'' (Some False) =
     Inl (Error ''Invalid frontmatter in ./.github/prompts/invalid-command.prompt.md: mode is invalid; '') \<and>
   fromFile sample_externals None ''invalid-command.prompt.md'' (Some True) =
     Inl (Error ''Invalid frontmatter in ./.github/prompts/invalid-command.prompt.md: mode is invalid; '') \<and>
   fromFile sample_externals None ''invalid-command.prompt.md'' None =
     Inl (Error ''Invalid frontmatter in ./.github/prompts/invalid-command.prompt.md: mode is invalid; '')"
  using fromFile_always_validates [of sample_externals None "''invalid-command.prompt.md''"
      "''description: Test''" "JObj [(''description'', JStr ''Test'')]" "''Body content''"]
  by (simp add: satisfies_copilot_schema_def fromFile_def getSettablePaths_def
      CopilotCommandFrontmatterSchema_safeParse_def field_issue_def check_mode_def
      check_optional_string_def sample_externals_def Let_def)

end
